theory Spec2Isabelle
  imports Main
begin

section \<open>Values of the host language\<close>

text \<open>
  The client is a TypeScript class running on the Fetch platform. The values it handles
  (request bodies, parsed response bodies, the absent body argument) are modelled by one
  datatype. Numbers are restricted to integers: the identifiers and status codes the client
  turns into text are integers, printed in plain decimal notation.
\<close>

datatype js_value =
    JUndefined
  | JNull
  | JBool bool
  | JNumber int
  | JString string
  | JArray "js_value list"
  | JObject "(string \<times> js_value) list"

text \<open>A \<open>Partial<T>\<close> argument is an object: a list of properties.\<close>

type_synonym partial_record = "(string \<times> js_value) list"

text \<open>The conversion to boolean that the conditional operator applies to \<open>body\<close>.\<close>

fun truthy :: "js_value \<Rightarrow> bool" where
  "truthy JUndefined = False"
| "truthy JNull = False"
| "truthy (JBool b) = b"
| "truthy (JNumber n) = (n \<noteq> 0)"
| "truthy (JString s) = (s \<noteq> [])"
| "truthy (JArray xs) = True"
| "truthy (JObject ps) = True"

text \<open>What a promise can reject with: an \<open>Error\<close> carrying a message, the \<open>SyntaxError\<close>
  of a body that is not JSON text, the \<open>TypeError\<close> of a request that got no response.\<close>

datatype js_error = Error string | SyntaxError | TypeError

text \<open>Decimal text of a number inside a template literal.\<close>

fun nat_toString :: "nat \<Rightarrow> string" where
  "nat_toString n =
     (if n < 10 then [''0123456789'' ! n]
      else nat_toString (n div 10) @ [''0123456789'' ! (n mod 10)])"

declare nat_toString.simps [simp del]

definition number_toString :: "int \<Rightarrow> string" where
  "number_toString i = (if i < 0 then CHR ''-'' # nat_toString (nat (- i)) else nat_toString (nat i))"

section \<open>The Fetch platform\<close>

text \<open>The arguments of one \<open>fetch\<close> call: the address and the fields of the init object.\<close>

record fetch_request =
  url :: string
  method_name :: string
  headers :: "(string \<times> string) list"
  body :: "string option"

text \<open>
  A response, as far as the client looks at it: the status, the status text, and what
  the \<open>json()\<close> method settles with (the parsed value of the whole body, or the
  \<open>SyntaxError\<close> of a body that is not JSON text).
\<close>

record response =
  status :: nat
  statusText :: string
  json :: "js_error + js_value"

text \<open>The \<open>ok\<close> getter of a response: the status lies between 200 and 299.\<close>

definition ok :: "response \<Rightarrow> bool" where
  "ok r = (200 \<le> status r \<and> status r \<le> 299)"

text \<open>
  The platform functions the client calls: \<open>fetch\<close>, which answers a request with a
  response or rejects, and \<open>JSON.stringify\<close>.
\<close>

record platform =
  fetch :: "fetch_request \<Rightarrow> js_error + response"
  JSON_stringify :: "js_value \<Rightarrow> string"

section \<open>The client\<close>

record client =
  baseUrl :: string
  token :: string

definition PaperlessClient :: "string \<Rightarrow> string \<Rightarrow> client" where
  "PaperlessClient b t = \<lparr>baseUrl = b, token = t\<rparr>"

text \<open>What a call has done when its promise settles: the instance as the call leaves it,
  the platform calls made, in order, and the value or error the promise settles with.\<close>

datatype event = Fetch fetch_request | ReadJson

record exchange =
  instance_after :: client
  trace :: "event list"
  outcome :: "js_error + js_value"

text \<open>The private method \<open>request\<close>.\<close>

definition request :: "platform \<Rightarrow> client \<Rightarrow> string \<Rightarrow> string \<Rightarrow> js_value \<Rightarrow> exchange" where
  "request env self meth path payload =
     (let init = \<lparr>url = baseUrl self @ path,
                  method_name = meth,
                  headers = [(''Authorization'', ''Token '' @ token self),
                             (''Content-Type'', ''application/json'')],
                  body = (if truthy payload then Some (JSON_stringify env payload) else None)\<rparr>
      in case fetch env init of
           Inl e \<Rightarrow> \<lparr>instance_after = self, trace = [Fetch init], outcome = Inl e\<rparr>
         | Inr resp \<Rightarrow>
             if \<not> ok resp
             then \<lparr>instance_after = self, trace = [Fetch init],
                   outcome = Inl (Error (''Request failed: '' @ nat_toString (status resp)
                                          @ '' '' @ statusText resp))\<rparr>
             else \<lparr>instance_after = self, trace = [Fetch init, ReadJson],
                   outcome = json resp\<rparr>)"

text \<open>A delete method awaits the request and returns nothing: a rejection passes through,
  a value is dropped.\<close>

definition await_void :: "exchange \<Rightarrow> exchange" where
  "await_void x = x\<lparr>outcome := (case outcome x of Inl e \<Rightarrow> Inl e | Inr v \<Rightarrow> Inr JUndefined)\<rparr>"

text \<open>The public methods of the class, one constructor for each, with its arguments.\<close>

datatype call =
    getDocuments
  | getDocument int
  | createDocument partial_record
  | updateDocument int partial_record
  | deleteDocument int
  | getTags
  | getTag int
  | createTag partial_record
  | updateTag int partial_record
  | deleteTag int
  | getCorrespondents
  | getCorrespondent int
  | createCorrespondent partial_record
  | updateCorrespondent int partial_record
  | deleteCorrespondent int
  | getDocumentTypes
  | getDocumentType int
  | createDocumentType partial_record
  | updateDocumentType int partial_record
  | deleteDocumentType int
  | getCustomFields
  | getCustomField int
  | createCustomField partial_record
  | updateCustomField int partial_record
  | deleteCustomField int
  | getUsers
  | getUser int
  | createUser partial_record
  | updateUser int partial_record
  | deleteUser int
  | getGroups
  | getGroup int
  | createGroup partial_record
  | updateGroup int partial_record
  | deleteGroup int
  | getShareLinks
  | getShareLink int
  | createShareLink partial_record
  | deleteShareLink int
  | getStoragePaths
  | getStoragePath int
  | createStoragePath partial_record
  | updateStoragePath int partial_record
  | deleteStoragePath int
  | getWorkflows
  | getWorkflow int
  | createWorkflow partial_record
  | updateWorkflow int partial_record
  | deleteWorkflow int

fun invoke :: "platform \<Rightarrow> client \<Rightarrow> call \<Rightarrow> exchange" where
  "invoke env self getDocuments = request env self ''GET'' ''/api/documents/'' JUndefined"
| "invoke env self (getDocument i) =
     request env self ''GET'' (''/api/documents/'' @ number_toString i @ ''/'') JUndefined"
| "invoke env self (createDocument document) =
     request env self ''POST'' ''/api/documents/'' (JObject document)"
| "invoke env self (updateDocument i document) =
     request env self ''PATCH'' (''/api/documents/'' @ number_toString i @ ''/'') (JObject document)"
| "invoke env self (deleteDocument i) =
     await_void (request env self ''DELETE'' (''/api/documents/'' @ number_toString i @ ''/'') JUndefined)"
| "invoke env self getTags = request env self ''GET'' ''/api/tags/'' JUndefined"
| "invoke env self (getTag i) =
     request env self ''GET'' (''/api/tags/'' @ number_toString i @ ''/'') JUndefined"
| "invoke env self (createTag tag) = request env self ''POST'' ''/api/tags/'' (JObject tag)"
| "invoke env self (updateTag i tag) =
     request env self ''PATCH'' (''/api/tags/'' @ number_toString i @ ''/'') (JObject tag)"
| "invoke env self (deleteTag i) =
     await_void (request env self ''DELETE'' (''/api/tags/'' @ number_toString i @ ''/'') JUndefined)"
| "invoke env self getCorrespondents = request env self ''GET'' ''/api/correspondents/'' JUndefined"
| "invoke env self (getCorrespondent i) =
     request env self ''GET'' (''/api/correspondents/'' @ number_toString i @ ''/'') JUndefined"
| "invoke env self (createCorrespondent correspondent) =
     request env self ''POST'' ''/api/correspondents/'' (JObject correspondent)"
| "invoke env self (updateCorrespondent i correspondent) =
     request env self ''PATCH'' (''/api/correspondents/'' @ number_toString i @ ''/'')
       (JObject correspondent)"
| "invoke env self (deleteCorrespondent i) =
     await_void (request env self ''DELETE'' (''/api/correspondents/'' @ number_toString i @ ''/'')
       JUndefined)"
| "invoke env self getDocumentTypes = request env self ''GET'' ''/api/document_types/'' JUndefined"
| "invoke env self (getDocumentType i) =
     request env self ''GET'' (''/api/document_types/'' @ number_toString i @ ''/'') JUndefined"
| "invoke env self (createDocumentType documentType) =
     request env self ''POST'' ''/api/document_types/'' (JObject documentType)"
| "invoke env self (updateDocumentType i documentType) =
     request env self ''PATCH'' (''/api/document_types/'' @ number_toString i @ ''/'')
       (JObject documentType)"
| "invoke env self (deleteDocumentType i) =
     await_void (request env self ''DELETE'' (''/api/document_types/'' @ number_toString i @ ''/'')
       JUndefined)"
| "invoke env self getCustomFields = request env self ''GET'' ''/api/custom_fields/'' JUndefined"
| "invoke env self (getCustomField i) =
     request env self ''GET'' (''/api/custom_fields/'' @ number_toString i @ ''/'') JUndefined"
| "invoke env self (createCustomField customField) =
     request env self ''POST'' ''/api/custom_fields/'' (JObject customField)"
| "invoke env self (updateCustomField i customField) =
     request env self ''PATCH'' (''/api/custom_fields/'' @ number_toString i @ ''/'')
       (JObject customField)"
| "invoke env self (deleteCustomField i) =
     await_void (request env self ''DELETE'' (''/api/custom_fields/'' @ number_toString i @ ''/'')
       JUndefined)"
| "invoke env self getUsers = request env self ''GET'' ''/api/users/'' JUndefined"
| "invoke env self (getUser i) =
     request env self ''GET'' (''/api/users/'' @ number_toString i @ ''/'') JUndefined"
| "invoke env self (createUser user) = request env self ''POST'' ''/api/users/'' (JObject user)"
| "invoke env self (updateUser i user) =
     request env self ''PATCH'' (''/api/users/'' @ number_toString i @ ''/'') (JObject user)"
| "invoke env self (deleteUser i) =
     await_void (request env self ''DELETE'' (''/api/users/'' @ number_toString i @ ''/'') JUndefined)"
| "invoke env self getGroups = request env self ''GET'' ''/api/groups/'' JUndefined"
| "invoke env self (getGroup i) =
     request env self ''GET'' (''/api/groups/'' @ number_toString i @ ''/'') JUndefined"
| "invoke env self (createGroup grp) = request env self ''POST'' ''/api/groups/'' (JObject grp)"
| "invoke env self (updateGroup i grp) =
     request env self ''PATCH'' (''/api/groups/'' @ number_toString i @ ''/'') (JObject grp)"
| "invoke env self (deleteGroup i) =
     await_void (request env self ''DELETE'' (''/api/groups/'' @ number_toString i @ ''/'') JUndefined)"
| "invoke env self getShareLinks = request env self ''GET'' ''/api/share_links/'' JUndefined"
| "invoke env self (getShareLink i) =
     request env self ''GET'' (''/api/share_links/'' @ number_toString i @ ''/'') JUndefined"
| "invoke env self (createShareLink shareLink) =
     request env self ''POST'' ''/api/share_links/'' (JObject shareLink)"
| "invoke env self (deleteShareLink i) =
     await_void (request env self ''DELETE'' (''/api/share_links/'' @ number_toString i @ ''/'')
       JUndefined)"
| "invoke env self getStoragePaths = request env self ''GET'' ''/api/storage_paths/'' JUndefined"
| "invoke env self (getStoragePath i) =
     request env self ''GET'' (''/api/storage_paths/'' @ number_toString i @ ''/'') JUndefined"
| "invoke env self (createStoragePath storagePath) =
     request env self ''POST'' ''/api/storage_paths/'' (JObject storagePath)"
| "invoke env self (updateStoragePath i storagePath) =
     request env self ''PATCH'' (''/api/storage_paths/'' @ number_toString i @ ''/'')
       (JObject storagePath)"
| "invoke env self (deleteStoragePath i) =
     await_void (request env self ''DELETE'' (''/api/storage_paths/'' @ number_toString i @ ''/'')
       JUndefined)"
| "invoke env self getWorkflows = request env self ''GET'' ''/api/workflows/'' JUndefined"
| "invoke env self (getWorkflow i) =
     request env self ''GET'' (''/api/workflows/'' @ number_toString i @ ''/'') JUndefined"
| "invoke env self (createWorkflow workflow) =
     request env self ''POST'' ''/api/workflows/'' (JObject workflow)"
| "invoke env self (updateWorkflow i workflow) =
     request env self ''PATCH'' (''/api/workflows/'' @ number_toString i @ ''/'') (JObject workflow)"
| "invoke env self (deleteWorkflow i) =
     await_void (request env self ''DELETE'' (''/api/workflows/'' @ number_toString i @ ''/'') JUndefined)"

section \<open>Observing an exchange\<close>

text \<open>The requests handed to \<open>fetch\<close>, in order.\<close>

fun fetched :: "event list \<Rightarrow> fetch_request list" where
  "fetched [] = []"
| "fetched (Fetch q # es) = q # fetched es"
| "fetched (ReadJson # es) = fetched es"

text \<open>The instance after a sequence of calls, each against the platform of its moment.\<close>

fun after_calls :: "client \<Rightarrow> (platform \<times> call) list \<Rightarrow> client" where
  "after_calls self [] = self"
| "after_calls self ((env, c) # steps) = after_calls (instance_after (invoke env self c)) steps"

section \<open>The documented operation pattern\<close>

text \<open>
  The specification describes ten resource kinds and five operations on each, every
  operation with a fixed method on the collection path or the item path of the kind.
  The definitions of this section follow that description, not the class.
\<close>

datatype resource =
    Document | Tag | Correspondent | DocumentType | CustomField
  | User | Group | ShareLink | StoragePath | Workflow

datatype operation =
    is_list: ListAll
  | is_get: GetById int
  | is_create: Create partial_record
  | is_update: Update int partial_record
  | is_delete: Delete int

text \<open>The collection path of each kind; the item path appends the identifier.\<close>

fun collection_path :: "resource \<Rightarrow> string" where
  "collection_path Document = ''/api/documents/''"
| "collection_path Tag = ''/api/tags/''"
| "collection_path Correspondent = ''/api/correspondents/''"
| "collection_path DocumentType = ''/api/document_types/''"
| "collection_path CustomField = ''/api/custom_fields/''"
| "collection_path User = ''/api/users/''"
| "collection_path Group = ''/api/groups/''"
| "collection_path ShareLink = ''/api/share_links/''"
| "collection_path StoragePath = ''/api/storage_paths/''"
| "collection_path Workflow = ''/api/workflows/''"

definition item_path :: "resource \<Rightarrow> int \<Rightarrow> string" where
  "item_path r i = collection_path r @ number_toString i @ ''/''"

fun documented_method :: "operation \<Rightarrow> string" where
  "documented_method ListAll = ''GET''"
| "documented_method (GetById i) = ''GET''"
| "documented_method (Create p) = ''POST''"
| "documented_method (Update i p) = ''PATCH''"
| "documented_method (Delete i) = ''DELETE''"

fun documented_path :: "resource \<Rightarrow> operation \<Rightarrow> string" where
  "documented_path r ListAll = collection_path r"
| "documented_path r (GetById i) = item_path r i"
| "documented_path r (Create p) = collection_path r"
| "documented_path r (Update i p) = item_path r i"
| "documented_path r (Delete i) = item_path r i"

text \<open>The record that a create or an update passes on; the other operations pass nothing.\<close>

fun body_argument :: "operation \<Rightarrow> js_value" where
  "body_argument ListAll = JUndefined"
| "body_argument (GetById i) = JUndefined"
| "body_argument (Create p) = JObject p"
| "body_argument (Update i p) = JObject p"
| "body_argument (Delete i) = JUndefined"

text \<open>The one request that the pattern documents for an operation on a resource kind:
  the method and path of the operation, the two headers, the record as JSON text.\<close>

definition documented_request :: "platform \<Rightarrow> client \<Rightarrow> resource \<Rightarrow> operation \<Rightarrow> fetch_request" where
  "documented_request env self r op =
     \<lparr>url = baseUrl self @ documented_path r op,
      method_name = documented_method op,
      headers = [(''Authorization'', ''Token '' @ token self),
                 (''Content-Type'', ''application/json'')],
      body = (case op of
                Create p \<Rightarrow> Some (JSON_stringify env (JObject p))
              | Update i p \<Rightarrow> Some (JSON_stringify env (JObject p))
              | _ \<Rightarrow> None)\<rparr>"

text \<open>The pattern as a wrapper around the shared routine: a delete returns nothing.\<close>

definition documented_call :: "platform \<Rightarrow> client \<Rightarrow> resource \<Rightarrow> operation \<Rightarrow> exchange" where
  "documented_call env self r op =
     (if is_delete op
      then await_void (request env self (documented_method op) (documented_path r op) (body_argument op))
      else request env self (documented_method op) (documented_path r op) (body_argument op))"

text \<open>Which resource kind and which operation each public method stands for.\<close>

fun resource_of :: "call \<Rightarrow> resource" where
  "resource_of getDocuments = Document"
| "resource_of (getDocument i) = Document"
| "resource_of (createDocument p) = Document"
| "resource_of (updateDocument i p) = Document"
| "resource_of (deleteDocument i) = Document"
| "resource_of getTags = Tag"
| "resource_of (getTag i) = Tag"
| "resource_of (createTag p) = Tag"
| "resource_of (updateTag i p) = Tag"
| "resource_of (deleteTag i) = Tag"
| "resource_of getCorrespondents = Correspondent"
| "resource_of (getCorrespondent i) = Correspondent"
| "resource_of (createCorrespondent p) = Correspondent"
| "resource_of (updateCorrespondent i p) = Correspondent"
| "resource_of (deleteCorrespondent i) = Correspondent"
| "resource_of getDocumentTypes = DocumentType"
| "resource_of (getDocumentType i) = DocumentType"
| "resource_of (createDocumentType p) = DocumentType"
| "resource_of (updateDocumentType i p) = DocumentType"
| "resource_of (deleteDocumentType i) = DocumentType"
| "resource_of getCustomFields = CustomField"
| "resource_of (getCustomField i) = CustomField"
| "resource_of (createCustomField p) = CustomField"
| "resource_of (updateCustomField i p) = CustomField"
| "resource_of (deleteCustomField i) = CustomField"
| "resource_of getUsers = User"
| "resource_of (getUser i) = User"
| "resource_of (createUser p) = User"
| "resource_of (updateUser i p) = User"
| "resource_of (deleteUser i) = User"
| "resource_of getGroups = Group"
| "resource_of (getGroup i) = Group"
| "resource_of (createGroup p) = Group"
| "resource_of (updateGroup i p) = Group"
| "resource_of (deleteGroup i) = Group"
| "resource_of getShareLinks = ShareLink"
| "resource_of (getShareLink i) = ShareLink"
| "resource_of (createShareLink p) = ShareLink"
| "resource_of (deleteShareLink i) = ShareLink"
| "resource_of getStoragePaths = StoragePath"
| "resource_of (getStoragePath i) = StoragePath"
| "resource_of (createStoragePath p) = StoragePath"
| "resource_of (updateStoragePath i p) = StoragePath"
| "resource_of (deleteStoragePath i) = StoragePath"
| "resource_of getWorkflows = Workflow"
| "resource_of (getWorkflow i) = Workflow"
| "resource_of (createWorkflow p) = Workflow"
| "resource_of (updateWorkflow i p) = Workflow"
| "resource_of (deleteWorkflow i) = Workflow"

fun operation_of :: "call \<Rightarrow> operation" where
  "operation_of getDocuments = ListAll"
| "operation_of (getDocument i) = GetById i"
| "operation_of (createDocument p) = Create p"
| "operation_of (updateDocument i p) = Update i p"
| "operation_of (deleteDocument i) = Delete i"
| "operation_of getTags = ListAll"
| "operation_of (getTag i) = GetById i"
| "operation_of (createTag p) = Create p"
| "operation_of (updateTag i p) = Update i p"
| "operation_of (deleteTag i) = Delete i"
| "operation_of getCorrespondents = ListAll"
| "operation_of (getCorrespondent i) = GetById i"
| "operation_of (createCorrespondent p) = Create p"
| "operation_of (updateCorrespondent i p) = Update i p"
| "operation_of (deleteCorrespondent i) = Delete i"
| "operation_of getDocumentTypes = ListAll"
| "operation_of (getDocumentType i) = GetById i"
| "operation_of (createDocumentType p) = Create p"
| "operation_of (updateDocumentType i p) = Update i p"
| "operation_of (deleteDocumentType i) = Delete i"
| "operation_of getCustomFields = ListAll"
| "operation_of (getCustomField i) = GetById i"
| "operation_of (createCustomField p) = Create p"
| "operation_of (updateCustomField i p) = Update i p"
| "operation_of (deleteCustomField i) = Delete i"
| "operation_of getUsers = ListAll"
| "operation_of (getUser i) = GetById i"
| "operation_of (createUser p) = Create p"
| "operation_of (updateUser i p) = Update i p"
| "operation_of (deleteUser i) = Delete i"
| "operation_of getGroups = ListAll"
| "operation_of (getGroup i) = GetById i"
| "operation_of (createGroup p) = Create p"
| "operation_of (updateGroup i p) = Update i p"
| "operation_of (deleteGroup i) = Delete i"
| "operation_of getShareLinks = ListAll"
| "operation_of (getShareLink i) = GetById i"
| "operation_of (createShareLink p) = Create p"
| "operation_of (deleteShareLink i) = Delete i"
| "operation_of getStoragePaths = ListAll"
| "operation_of (getStoragePath i) = GetById i"
| "operation_of (createStoragePath p) = Create p"
| "operation_of (updateStoragePath i p) = Update i p"
| "operation_of (deleteStoragePath i) = Delete i"
| "operation_of getWorkflows = ListAll"
| "operation_of (getWorkflow i) = GetById i"
| "operation_of (createWorkflow p) = Create p"
| "operation_of (updateWorkflow i p) = Update i p"
| "operation_of (deleteWorkflow i) = Delete i"

section \<open>A concrete platform\<close>

text \<open>
  \<open>JSON.stringify\<close> on the values of \<open>js_value\<close>: strings are quoted and escaped, a
  property whose value is undefined is left out, an undefined array element is written
  as null.
\<close>

definition escape_char :: "char \<Rightarrow> string" where
  "escape_char c =
     (if c = CHR 0x22 then [CHR 0x5C, CHR 0x22]
      else if c = CHR 0x5C then [CHR 0x5C, CHR 0x5C]
      else if c = CHR 0x08 then [CHR 0x5C, CHR ''b'']
      else if c = CHR 0x09 then [CHR 0x5C, CHR ''t'']
      else if c = CHR 0x0A then [CHR 0x5C, CHR ''n'']
      else if c = CHR 0x0C then [CHR 0x5C, CHR ''f'']
      else if c = CHR 0x0D then [CHR 0x5C, CHR ''r'']
      else if (of_char c :: nat) < 32
      then [CHR 0x5C, CHR ''u'', CHR ''0'', CHR ''0'',
            ''0123456789abcdef'' ! (of_char c div 16), ''0123456789abcdef'' ! (of_char c mod 16)]
      else [c])"

definition quote :: "string \<Rightarrow> string" where
  "quote s = CHR 0x22 # concat (map escape_char s) @ [CHR 0x22]"

fun commas :: "string list \<Rightarrow> string" where
  "commas [] = []"
| "commas [x] = x"
| "commas (x # y # ys) = x @ '','' @ commas (y # ys)"

fun stringify :: "js_value \<Rightarrow> string" where
  "stringify JUndefined = ''null''"
| "stringify JNull = ''null''"
| "stringify (JBool b) = (if b then ''true'' else ''false'')"
| "stringify (JNumber n) = number_toString n"
| "stringify (JString s) = quote s"
| "stringify (JArray xs) = ''['' @ commas (map stringify xs) @ '']''"
| "stringify (JObject ps) =
     ''{'' @ commas (map (\<lambda>p. quote (fst p) @ '':'' @ stringify (snd p))
                      (filter (\<lambda>p. snd p \<noteq> JUndefined) ps)) @ ''}''"

text \<open>A platform whose server answers every request with the response \<open>r\<close>.\<close>

definition answering :: "response \<Rightarrow> platform" where
  "answering r = \<lparr>fetch = (\<lambda>q. Inr r), JSON_stringify = stringify\<rparr>"

definition example_client :: client where
  "example_client = PaperlessClient ''http://localhost:8000'' ''abc123''"

text \<open>A response with status 200 whose body is the JSON text of \<open>v\<close>.\<close>

definition ok_with :: "js_value \<Rightarrow> response" where
  "ok_with v = \<lparr>status = 200, statusText = ''OK'', json = Inr v\<rparr>"

definition not_found :: response where
  "not_found = \<lparr>status = 404, statusText = ''Not Found'',
                 json = Inr (JObject [(''detail'', JString ''Not found.'')])\<rparr>"

text \<open>
  The response to a successful deletion: status 204. A response with status 204 has
  no body, and \<open>json()\<close> on it reads the empty text, which is not JSON text: the
  promise of \<open>json()\<close> rejects with a \<open>SyntaxError\<close>.
\<close>

definition no_content :: response where
  "no_content = \<lparr>status = 204, statusText = ''No Content'', json = Inl SyntaxError\<rparr>"

section \<open>The shared routine\<close>

lemma fetched_request:
  "fetched (trace (request env self meth path payload)) =
     [\<lparr>url = baseUrl self @ path, method_name = meth,
       headers = [(''Authorization'', ''Token '' @ token self),
                  (''Content-Type'', ''application/json'')],
       body = (if truthy payload then Some (JSON_stringify env payload) else None)\<rparr>]"
  by (simp add: request_def Let_def split: sum.splits)

lemma instance_after_request: "instance_after (request env self meth path payload) = self"
  by (simp add: request_def Let_def split: sum.splits)

lemma request_failure:
  assumes "fetched (trace (request env self meth path payload)) = [q]"
    and "fetch env q = Inr r" and "\<not> ok r"
  shows "request env self meth path payload =
           \<lparr>instance_after = self, trace = [Fetch q],
            outcome = Inl (Error (''Request failed: '' @ nat_toString (status r) @ '' ''
                                   @ statusText r))\<rparr>"
proof -
  from assms(1) have q: "q = \<lparr>url = baseUrl self @ path, method_name = meth,
       headers = [(''Authorization'', ''Token '' @ token self),
                  (''Content-Type'', ''application/json'')],
       body = (if truthy payload then Some (JSON_stringify env payload) else None)\<rparr>"
    by (simp add: fetched_request)
  show ?thesis
    using assms(2,3) unfolding q by (simp add: request_def Let_def)
qed

lemma request_success:
  assumes "fetched (trace (request env self meth path payload)) = [q]"
    and "fetch env q = Inr r" and "ok r"
  shows "request env self meth path payload =
           \<lparr>instance_after = self, trace = [Fetch q, ReadJson], outcome = json r\<rparr>"
proof -
  from assms(1) have q: "q = \<lparr>url = baseUrl self @ path, method_name = meth,
       headers = [(''Authorization'', ''Token '' @ token self),
                  (''Content-Type'', ''application/json'')],
       body = (if truthy payload then Some (JSON_stringify env payload) else None)\<rparr>"
    by (simp add: fetched_request)
  show ?thesis
    using assms(2,3) unfolding q by (simp add: request_def Let_def)
qed

lemma trace_await_void: "trace (await_void x) = trace x"
  by (simp add: await_void_def)

lemma instance_after_await_void: "instance_after (await_void x) = instance_after x"
  by (simp add: await_void_def)

lemma outcome_await_void:
  "outcome (await_void x) = (case outcome x of Inl e \<Rightarrow> Inl e | Inr v \<Rightarrow> Inr JUndefined)"
  by (simp add: await_void_def)

section \<open>Every method is an instance of the pattern\<close>

lemma invoke_pattern:
  "invoke env self c = documented_call env self (resource_of c) (operation_of c)"
  by (cases c) (simp_all add: documented_call_def item_path_def)

lemma fetched_documented_call:
  "fetched (trace (documented_call env self r op)) = [documented_request env self r op]"
  by (cases op) (simp_all add: documented_call_def documented_request_def fetched_request
      trace_await_void)

lemma fetched_invoke:
  "fetched (trace (invoke env self c)) =
     [documented_request env self (resource_of c) (operation_of c)]"
  by (simp add: invoke_pattern fetched_documented_call)

lemma instance_after_invoke: "instance_after (invoke env self c) = self"
  by (simp add: invoke_pattern documented_call_def instance_after_request
      instance_after_await_void)

lemma invoke_failure:
  assumes "fetched (trace (invoke env self c)) = [q]"
    and "fetch env q = Inr r" and "\<not> ok r"
  shows "outcome (invoke env self c) =
           Inl (Error (''Request failed: '' @ nat_toString (status r) @ '' '' @ statusText r))"
    and "trace (invoke env self c) = [Fetch q]"
proof -
  let ?x = "request env self (documented_method (operation_of c))
              (documented_path (resource_of c) (operation_of c)) (body_argument (operation_of c))"
  from assms(1) have "fetched (trace ?x) = [q]"
    by (simp add: invoke_pattern documented_call_def trace_await_void split: if_splits)
  from request_failure [OF this assms(2,3)]
  have x: "?x = \<lparr>instance_after = self, trace = [Fetch q],
            outcome = Inl (Error (''Request failed: '' @ nat_toString (status r) @ '' ''
                                   @ statusText r))\<rparr>" .
  show "outcome (invoke env self c) =
           Inl (Error (''Request failed: '' @ nat_toString (status r) @ '' '' @ statusText r))"
    by (simp add: invoke_pattern documented_call_def x outcome_await_void)
  show "trace (invoke env self c) = [Fetch q]"
    by (simp add: invoke_pattern documented_call_def x trace_await_void)
qed

lemma invoke_success:
  assumes "fetched (trace (invoke env self c)) = [q]"
    and "fetch env q = Inr r" and "ok r"
  shows "trace (invoke env self c) = [Fetch q, ReadJson]"
    and "\<not> is_delete (operation_of c) \<Longrightarrow> outcome (invoke env self c) = json r"
    and "is_delete (operation_of c) \<Longrightarrow> json r = Inr v \<Longrightarrow> outcome (invoke env self c) = Inr JUndefined"
    and "is_delete (operation_of c) \<Longrightarrow> json r = Inl e \<Longrightarrow> outcome (invoke env self c) = Inl e"
proof -
  let ?x = "request env self (documented_method (operation_of c))
              (documented_path (resource_of c) (operation_of c)) (body_argument (operation_of c))"
  from assms(1) have "fetched (trace ?x) = [q]"
    by (simp add: invoke_pattern documented_call_def trace_await_void split: if_splits)
  from request_success [OF this assms(2,3)]
  have x: "?x = \<lparr>instance_after = self, trace = [Fetch q, ReadJson], outcome = json r\<rparr>" .
  show "trace (invoke env self c) = [Fetch q, ReadJson]"
    by (simp add: invoke_pattern documented_call_def x trace_await_void)
  show "\<not> is_delete (operation_of c) \<Longrightarrow> outcome (invoke env self c) = json r"
    by (simp add: invoke_pattern documented_call_def x)
  show "is_delete (operation_of c) \<Longrightarrow> json r = Inr v \<Longrightarrow> outcome (invoke env self c) = Inr JUndefined"
    by (simp add: invoke_pattern documented_call_def x outcome_await_void)
  show "is_delete (operation_of c) \<Longrightarrow> json r = Inl e \<Longrightarrow> outcome (invoke env self c) = Inl e"
    by (simp add: invoke_pattern documented_call_def x outcome_await_void)
qed

lemma call_for_operation:
  assumes "r \<noteq> ShareLink \<or> \<not> is_update op"
  shows "\<exists>c. resource_of c = r \<and> operation_of c = op"
  using assms
  by (cases r; cases op) (fastforce intro: resource_of.simps operation_of.simps)+

section \<open>Evaluating the examples\<close>

lemma fetch_answering: "fetch (answering r) q = Inr r"
  by (simp add: answering_def)

lemma ok_examples: "ok (ok_with v)" "\<not> ok not_found"
  by (simp_all add: ok_def ok_with_def not_found_def)

section \<open>The claims\<close>

text \<open>
  Claim C1, as the class has it. For every resource kind and every operation of the
  pattern, except the update of a share link, the class has a method that issues exactly
  the request the pattern documents: GET on the collection path to list, GET on the item
  path to get by id, POST on the collection path with the record to create, PATCH on the
  item path with the record to update, DELETE on the item path to delete.
\<close>

theorem crud_operations_offered:
  assumes "r \<noteq> ShareLink \<or> \<not> is_update op"
  shows "\<exists>c. \<forall>env self. fetched (trace (invoke env self c)) = [documented_request env self r op]"
proof -
  from call_for_operation [OF assms]
  obtain c where "resource_of c = r" and "operation_of c = op" by blast
  then have "\<forall>env self. fetched (trace (invoke env self c)) = [documented_request env self r op]"
    by (simp add: fetched_invoke)
  then show ?thesis ..
qed

theorem crud_operations_offered_witness:
  "\<exists>c. \<forall>env self. fetched (trace (invoke env self c)) =
          [\<lparr>url = baseUrl self @ ''/api/tags/3/'', method_name = ''PATCH'',
            headers = [(''Authorization'', ''Token '' @ token self),
                       (''Content-Type'', ''application/json'')],
            body = Some (JSON_stringify env (JObject [(''name'', JString ''inbox'')]))\<rparr>]"
  using crud_operations_offered [of Tag "Update 3 [(''name'', JString ''inbox'')]"]
  by (simp add: documented_request_def item_path_def number_toString_def nat_toString.simps)

text \<open>
  Claim C1, as stated, fails for the share links: no method of the class sends a PATCH
  to the item path of a share link.
\<close>

theorem updateShareLink_missing:
  "\<not> (\<exists>c. \<forall>env self. fetched (trace (invoke env self c)) =
          [documented_request env self ShareLink (Update 1 [])])"
proof
  assume "\<exists>c. \<forall>env self. fetched (trace (invoke env self c)) =
          [documented_request env self ShareLink (Update 1 [])]"
  then obtain c where "fetched (trace (invoke (answering not_found) (PaperlessClient [] []) c)) =
          [documented_request (answering not_found) (PaperlessClient [] []) ShareLink (Update 1 [])]"
    by blast
  then have "documented_request (answering not_found) (PaperlessClient [] [])
               (resource_of c) (operation_of c) =
             documented_request (answering not_found) (PaperlessClient [] []) ShareLink (Update 1 [])"
    by (simp add: fetched_invoke)
  then show False
    by (cases c) (simp_all add: documented_request_def item_path_def PaperlessClient_def)
qed

text \<open>
  Claim C2. Whatever the method, when the response to its request has a status outside
  200 to 299, the call rejects with the error whose message carries the status code and
  the status text of that response, and the body of the response is not read: the
  request is the only platform call made.
\<close>

theorem failure_status_rejects:
  assumes "fetched (trace (invoke env self c)) = [q]"
    and "fetch env q = Inr r"
    and "status r < 200 \<or> 299 < status r"
  shows "outcome (invoke env self c) =
           Inl (Error (''Request failed: '' @ nat_toString (status r) @ '' '' @ statusText r))
         \<and> trace (invoke env self c) = [Fetch q]"
proof -
  from assms(3) have "\<not> ok r" by (auto simp add: ok_def)
  with assms(1,2) show ?thesis
    by (simp add: invoke_failure)
qed

theorem failure_status_rejects_witness:
  "outcome (invoke (answering not_found) example_client (updateTag 3 [])) =
     Inl (Error ''Request failed: 404 Not Found'')
   \<and> trace (invoke (answering not_found) example_client (updateTag 3 [])) =
     [Fetch (documented_request (answering not_found) example_client Tag (Update 3 []))]"
proof -
  have a: "fetched (trace (invoke (answering not_found) example_client (updateTag 3 []))) =
             [documented_request (answering not_found) example_client Tag (Update 3 [])]"
    using fetched_invoke [of "answering not_found" example_client "updateTag 3 []"] by simp
  have b: "fetch (answering not_found)
             (documented_request (answering not_found) example_client Tag (Update 3 [])) =
           Inr not_found"
    by (rule fetch_answering)
  have c: "status not_found < 200 \<or> 299 < status not_found"
    by (simp add: not_found_def)
  from failure_status_rejects [OF a b c] show ?thesis
    by (simp add: not_found_def nat_toString.simps)
qed

text \<open>
  Claim C3, as the class has it. When the response has a status from 200 to 299, the
  call reads the whole body as JSON, once, and a list, get, create or update call settles
  with exactly what that reading gives, whatever its shape; a delete call reads the body
  too, drops the parsed value and resolves to no value.
\<close>

theorem success_returns_parsed_body:
  assumes "fetched (trace (invoke env self c)) = [q]"
    and "fetch env q = Inr r"
    and "200 \<le> status r \<and> status r \<le> 299"
  shows "trace (invoke env self c) = [Fetch q, ReadJson]
         \<and> (\<not> is_delete (operation_of c) \<longrightarrow> outcome (invoke env self c) = json r)
         \<and> (is_delete (operation_of c) \<longrightarrow>
              (\<forall>v. json r = Inr v \<longrightarrow> outcome (invoke env self c) = Inr JUndefined))"
proof -
  from assms(3) have "ok r" by (simp add: ok_def)
  with assms(1,2) show ?thesis
    by (simp add: invoke_success)
qed

theorem success_returns_parsed_body_witness:
  "outcome (invoke (answering (ok_with (JObject [(''id'', JNumber 5), (''title'', JString ''Invoice'')])))
      example_client (getDocument 5)) =
     Inr (JObject [(''id'', JNumber 5), (''title'', JString ''Invoice'')])
   \<and> outcome (invoke (answering (ok_with (JObject []))) example_client (deleteDocument 5)) =
     Inr JUndefined"
proof -
  let ?v = "JObject [(''id'', JNumber 5), (''title'', JString ''Invoice'')]"
  have a: "fetched (trace (invoke (answering (ok_with ?v)) example_client (getDocument 5))) =
             [documented_request (answering (ok_with ?v)) example_client Document (GetById 5)]"
    using fetched_invoke [of "answering (ok_with ?v)" example_client "getDocument 5"] by simp
  have b: "fetch (answering (ok_with ?v))
             (documented_request (answering (ok_with ?v)) example_client Document (GetById 5)) =
           Inr (ok_with ?v)"
    by (rule fetch_answering)
  have c: "200 \<le> status (ok_with ?v) \<and> status (ok_with ?v) \<le> 299"
    by (simp add: ok_with_def)
  have a': "fetched (trace (invoke (answering (ok_with (JObject []))) example_client (deleteDocument 5))) =
             [documented_request (answering (ok_with (JObject []))) example_client Document (Delete 5)]"
    using fetched_invoke [of "answering (ok_with (JObject []))" example_client "deleteDocument 5"]
    by simp
  have b': "fetch (answering (ok_with (JObject [])))
             (documented_request (answering (ok_with (JObject []))) example_client Document (Delete 5)) =
           Inr (ok_with (JObject []))"
    by (rule fetch_answering)
  have c': "200 \<le> status (ok_with (JObject [])) \<and> status (ok_with (JObject [])) \<le> 299"
    by (simp add: ok_with_def)
  from success_returns_parsed_body [OF a b c] success_returns_parsed_body [OF a' b' c']
  show ?thesis
    by (simp add: ok_with_def)
qed

text \<open>
  Claim C3, as stated, fails for the delete methods: the response has status 200 and a
  body that parses to an object, and the call does not settle with that object.
\<close>

theorem delete_drops_parsed_body:
  "status (ok_with (JObject [(''id'', JNumber 3)])) = 200
   \<and> json (ok_with (JObject [(''id'', JNumber 3)])) = Inr (JObject [(''id'', JNumber 3)])
   \<and> outcome (invoke (answering (ok_with (JObject [(''id'', JNumber 3)]))) example_client (deleteTag 3))
       = Inr JUndefined
   \<and> outcome (invoke (answering (ok_with (JObject [(''id'', JNumber 3)]))) example_client (deleteTag 3))
       \<noteq> json (ok_with (JObject [(''id'', JNumber 3)]))"
  by (simp add: ok_with_def answering_def example_client_def PaperlessClient_def request_def
      await_void_def ok_def Let_def)

text \<open>
  Claim C4. Whatever the method, the one request it issues has the Authorization header
  \<open>Token\<close>, a space, and the token of the instance as it is.
\<close>

theorem authorization_header_verbatim:
  "map (\<lambda>q. map_of (headers q) ''Authorization'') (fetched (trace (invoke env self c))) =
     [Some (''Token '' @ token self)]"
  by (simp add: fetched_invoke documented_request_def)

theorem authorization_header_verbatim_witness:
  "map (\<lambda>q. map_of (headers q) ''Authorization'')
     (fetched (trace (invoke (answering not_found) example_client getUsers))) =
     [Some ''Token abc123'']"
  using authorization_header_verbatim [of "answering not_found" example_client getUsers]
  by (simp add: example_client_def PaperlessClient_def)

text \<open>
  Claim C5. Whatever the method, the call hands exactly one request to \<open>fetch\<close>, with
  the method the pattern documents for its operation and the base address followed by the
  path the pattern documents for its operation and resource kind; a list call that gets a
  response with a status from 200 to 299 settles with what the body of that one response
  parses to.
\<close>

theorem one_request_per_call:
  "map (\<lambda>q. (method_name q, url q)) (fetched (trace (invoke env self c))) =
     [(documented_method (operation_of c),
       baseUrl self @ documented_path (resource_of c) (operation_of c))]
   \<and> (is_list (operation_of c) \<longrightarrow>
        (\<forall>q r. fetched (trace (invoke env self c)) = [q] \<and> fetch env q = Inr r \<and> ok r
           \<longrightarrow> trace (invoke env self c) = [Fetch q, ReadJson]
               \<and> outcome (invoke env self c) = json r))"
proof -
  have "map (\<lambda>q. (method_name q, url q)) (fetched (trace (invoke env self c))) =
     [(documented_method (operation_of c),
       baseUrl self @ documented_path (resource_of c) (operation_of c))]"
    by (simp add: fetched_invoke documented_request_def)
  moreover have "is_list (operation_of c) \<longrightarrow>
        (\<forall>q r. fetched (trace (invoke env self c)) = [q] \<and> fetch env q = Inr r \<and> ok r
           \<longrightarrow> trace (invoke env self c) = [Fetch q, ReadJson]
               \<and> outcome (invoke env self c) = json r)"
  proof (intro impI allI, elim conjE)
    fix q r
    assume l: "is_list (operation_of c)"
      and h: "fetched (trace (invoke env self c)) = [q]" "fetch env q = Inr r" "ok r"
    from l have "\<not> is_delete (operation_of c)"
      by (cases "operation_of c") simp_all
    with invoke_success(1,2) [OF h]
    show "trace (invoke env self c) = [Fetch q, ReadJson] \<and> outcome (invoke env self c) = json r"
      by simp
  qed
  ultimately show ?thesis ..
qed

theorem one_request_per_call_witness:
  "map (\<lambda>q. (method_name q, url q))
     (fetched (trace (invoke (answering (ok_with (JArray [JObject [(''id'', JNumber 1)]])))
        example_client getShareLinks))) =
     [(''GET'', ''http://localhost:8000/api/share_links/'')]
   \<and> outcome (invoke (answering (ok_with (JArray [JObject [(''id'', JNumber 1)]])))
        example_client getShareLinks) =
     Inr (JArray [JObject [(''id'', JNumber 1)]])"
proof -
  let ?r = "ok_with (JArray [JObject [(''id'', JNumber 1)]])"
  have a: "fetched (trace (invoke (answering ?r) example_client getShareLinks)) =
             [documented_request (answering ?r) example_client ShareLink ListAll]"
    using fetched_invoke [of "answering ?r" example_client getShareLinks] by simp
  have b: "fetch (answering ?r) (documented_request (answering ?r) example_client ShareLink ListAll)
           = Inr ?r"
    by (rule fetch_answering)
  have c: "ok ?r" by (rule ok_examples)
  from one_request_per_call [of "answering ?r" example_client getShareLinks] a b c
  show ?thesis
    by (simp add: ok_with_def example_client_def PaperlessClient_def)
qed

text \<open>
  Claim C6, evaluated. \<open>deleteTag(3)\<close> sends DELETE to \<open>/api/tags/3/\<close>, and a 404
  response makes it reject with the error carrying 404. A 204 response counts as a
  success, so the method goes on to read its body as JSON; the body of a 204 response is
  empty, the reading rejects, and so does the call: it does not resolve.
\<close>

theorem deleteTag_no_content_rejects:
  "map (\<lambda>q. (method_name q, url q))
     (fetched (trace (invoke (answering no_content) example_client (deleteTag 3)))) =
     [(''DELETE'', ''http://localhost:8000/api/tags/3/'')]
   \<and> outcome (invoke (answering not_found) example_client (deleteTag 3)) =
       Inl (Error ''Request failed: 404 Not Found'')
   \<and> status no_content = 204
   \<and> trace (invoke (answering no_content) example_client (deleteTag 3)) =
       [Fetch (documented_request (answering no_content) example_client Tag (Delete 3)), ReadJson]
   \<and> outcome (invoke (answering no_content) example_client (deleteTag 3)) = Inl SyntaxError"
  by (simp add: no_content_def not_found_def answering_def example_client_def PaperlessClient_def
      request_def await_void_def ok_def Let_def documented_request_def item_path_def
      number_toString_def nat_toString.simps)

text \<open>
  Claim C7. Whatever the method, the headers of the one request it issues are exactly
  two: Authorization with the token, and Content-Type with the JSON media type.
\<close>

theorem exactly_two_headers:
  "map headers (fetched (trace (invoke env self c))) =
     [[(''Authorization'', ''Token '' @ token self), (''Content-Type'', ''application/json'')]]"
  by (simp add: fetched_invoke documented_request_def)

theorem exactly_two_headers_witness:
  "map headers (fetched (trace (invoke (answering not_found) example_client (getGroup 7)))) =
     [[(''Authorization'', ''Token abc123''), (''Content-Type'', ''application/json'')]]"
  using exactly_two_headers [of "answering not_found" example_client "getGroup 7"]
  by (simp add: example_client_def PaperlessClient_def)

text \<open>
  Claim C8. An instance is its base address and its token and nothing else; the
  constructor stores the two as given, no call changes the instance, and after any
  sequence of calls the instance still holds the base address and the token it was
  constructed with.
\<close>

theorem client_never_changes:
  "PaperlessClient b t = \<lparr>baseUrl = b, token = t\<rparr>
   \<and> instance_after (invoke env self c) = self
   \<and> after_calls (PaperlessClient b t) steps = \<lparr>baseUrl = b, token = t\<rparr>"
proof -
  have "after_calls self steps = self" for self
  proof (induction steps arbitrary: self)
    case Nil
    show ?case by simp
  next
    case (Cons step steps)
    obtain env' c' where "step = (env', c')" by (cases step)
    with Cons.IH show ?case
      by (simp add: instance_after_invoke)
  qed
  then show ?thesis
    by (simp add: instance_after_invoke PaperlessClient_def)
qed

theorem client_never_changes_witness:
  "after_calls (PaperlessClient ''http://localhost:8000'' ''abc123'')
     [(answering (ok_with (JObject [])), deleteTag 3), (answering not_found, getTag 3)] =
     \<lparr>baseUrl = ''http://localhost:8000'', token = ''abc123''\<rparr>"
  using client_never_changes [where b = "''http://localhost:8000''" and t = "''abc123''"
      and steps = "[(answering (ok_with (JObject [])), deleteTag 3), (answering not_found, getTag 3)]"]
  by blast

text \<open>
  Claim C9. A list, get-by-id or delete call issues its request without a body, and the
  request still has the JSON Content-Type header.
\<close>

theorem no_body_without_record:
  assumes "is_list (operation_of c) \<or> is_get (operation_of c) \<or> is_delete (operation_of c)"
  shows "map body (fetched (trace (invoke env self c))) = [None]
         \<and> map (\<lambda>q. map_of (headers q) ''Content-Type'') (fetched (trace (invoke env self c))) =
             [Some ''application/json'']"
  using assms
  by (cases "operation_of c") (simp_all add: fetched_invoke documented_request_def)

theorem no_body_without_record_witness:
  "map body (fetched (trace (invoke (answering not_found) example_client (deleteTag 3)))) = [None]
   \<and> map (\<lambda>q. map_of (headers q) ''Content-Type'')
        (fetched (trace (invoke (answering not_found) example_client (deleteTag 3)))) =
       [Some ''application/json'']"
proof -
  have "is_list (operation_of (deleteTag 3)) \<or> is_get (operation_of (deleteTag 3))
        \<or> is_delete (operation_of (deleteTag 3))"
    by simp
  from no_body_without_record [OF this] show ?thesis .
qed

text \<open>
  Claim C10. Whatever the method, replacing the token of the instance, and whatever the
  server answers, leaves the address, the method and the body of the issued request as
  they were, and the headers other than Authorization too: the token reaches the
  Authorization header and nothing else of the request.
\<close>

theorem token_only_in_authorization:
  "map (\<lambda>q. (url q, method_name q, body q))
     (fetched (trace (invoke (env\<lparr>fetch := f\<rparr>) (self\<lparr>token := t\<rparr>) c))) =
   map (\<lambda>q. (url q, method_name q, body q)) (fetched (trace (invoke env self c)))
   \<and> map (\<lambda>q. filter (\<lambda>h. fst h \<noteq> ''Authorization'') (headers q))
       (fetched (trace (invoke (env\<lparr>fetch := f\<rparr>) (self\<lparr>token := t\<rparr>) c))) =
     map (\<lambda>q. filter (\<lambda>h. fst h \<noteq> ''Authorization'') (headers q))
       (fetched (trace (invoke env self c)))"
  by (cases "operation_of c") (simp_all add: fetched_invoke documented_request_def)

theorem token_only_in_authorization_witness:
  "map (\<lambda>q. (url q, method_name q, body q))
     (fetched (trace (invoke ((answering not_found)\<lparr>fetch := \<lambda>q. Inr (ok_with JNull)\<rparr>)
        (example_client\<lparr>token := ''other''\<rparr>) (createTag [])))) =
   map (\<lambda>q. (url q, method_name q, body q))
     (fetched (trace (invoke (answering not_found) example_client (createTag []))))
   \<and> map (\<lambda>q. filter (\<lambda>h. fst h \<noteq> ''Authorization'') (headers q))
       (fetched (trace (invoke ((answering not_found)\<lparr>fetch := \<lambda>q. Inr (ok_with JNull)\<rparr>)
          (example_client\<lparr>token := ''other''\<rparr>) (createTag [])))) =
     map (\<lambda>q. filter (\<lambda>h. fst h \<noteq> ''Authorization'') (headers q))
       (fetched (trace (invoke (answering not_found) example_client (createTag []))))"
  by (rule token_only_in_authorization)

end
